theory Spec2Isabelle
  imports Complex_Main "HOL-Library.Word"
begin

section \<open>Data model of LoggerLibrary\<close>

type_synonym uint8 = "8 word"
type_synonym int32 = "32 word"
type_synonym FString = string

subsection \<open>Enumerations (LoggerLibrary.h)\<close>

text \<open>
  \<^verbatim>\<open>enum class ELoggerLevel : uint8\<close>: a byte whose seven enumerators are numbered in
  declaration order. The byte, not a seven-valued datatype, is what the switch, the
  comparison \<^verbatim>\<open>static_cast<uint8>(Level) >= static_cast<uint8>(DisplayLogLevel)\<close> and
  the colour lookup of LoggerLibrary.cpp work on.
\<close>

type_synonym ELoggerLevel = uint8

definition VeryVerbose :: ELoggerLevel where "VeryVerbose = 0"
definition Verbose :: ELoggerLevel where "Verbose = 1"
definition Log :: ELoggerLevel where "Log = 2"
definition Display :: ELoggerLevel where "Display = 3"
definition Warning :: ELoggerLevel where "Warning = 4"
definition Error :: ELoggerLevel where "Error = 5"
definition Fatal :: ELoggerLevel where "Fatal = 6"

text \<open>\<^verbatim>\<open>enum class ELogValidityCondition : uint8\<close> and \<^verbatim>\<open>ELogBooleanCondition : uint8\<close>.\<close>

type_synonym ELogValidityCondition = uint8

definition LogWhenValid :: ELogValidityCondition where "LogWhenValid = 0"
definition LogWhenInvalid :: ELogValidityCondition where "LogWhenInvalid = 1"

type_synonym ELogBooleanCondition = uint8

definition LogWhenTrue :: ELogBooleanCondition where "LogWhenTrue = 0"
definition LogWhenFalse :: ELogBooleanCondition where "LogWhenFalse = 1"

text \<open>
  The two outcome enumerations are only ever written by the library, so they are
  datatypes. \<^verbatim>\<open>EValidityOutcome::IsValid\<close> is spelled with its enumeration's name because
  the host function \<^verbatim>\<open>IsValid\<close> has the same name.
\<close>

datatype EValidityOutcome = EValidityOutcome_IsValid | EValidityOutcome_IsNotValid

datatype EConditionOutcome = IsTrue | IsFalse

subsection \<open>Host objects\<close>

text \<open>
  What LoggerLibrary.cpp asks of a \<^verbatim>\<open>UObject*\<close>: its name (\<^verbatim>\<open>GetName\<close>), whether
  \<^verbatim>\<open>Cast<UActorComponent>\<close> succeeds and then its owner (\<^verbatim>\<open>GetOwner\<close>, an \<^verbatim>\<open>AActor*\<close>
  that may be null), and whether it is a live instance (\<^verbatim>\<open>IsValid\<close>). A pointer is an
  \<open>option\<close>: \<open>None\<close> is \<^verbatim>\<open>nullptr\<close>.
\<close>

datatype AActor = AActor (ActorGetName: FString)

datatype UObject =
    UActorComponent (GetName: FString) (Live: bool) "AActor option"
  | PlainObject (GetName: FString) (Live: bool)

fun Cast_UActorComponent :: "UObject option \<Rightarrow> UObject option" where
  "Cast_UActorComponent None = None"
| "Cast_UActorComponent (Some (UActorComponent n l ow)) = Some (UActorComponent n l ow)"
| "Cast_UActorComponent (Some (PlainObject n l)) = None"

fun GetOwner :: "UObject \<Rightarrow> AActor option" where
  "GetOwner (UActorComponent n l ow) = ow"
| "GetOwner (PlainObject n l) = None"

text \<open>
  Modelled from the spec: \<^verbatim>\<open>IsValid(const UObject*)\<close> is the engine's, not this
  repository's. The spec asks of the host "the ability to test whether a reference is a live,
  non-destroyed instance": the reference is not null and the object is live.
\<close>

definition IsValid :: "UObject option \<Rightarrow> bool" where
  "IsValid Test = (case Test of None \<Rightarrow> False | Some obj \<Rightarrow> Live obj)"

subsection \<open>Log sink and on-screen overlay\<close>

text \<open>The verbosity names the seven \<^verbatim>\<open>UE_LOG\<close> calls of LogMessage pass to the host.\<close>

datatype ELogVerbosity =
    ELogVerbosity_VeryVerbose
  | ELogVerbosity_Verbose
  | ELogVerbosity_Log
  | ELogVerbosity_Display
  | ELogVerbosity_Warning
  | ELogVerbosity_Error
  | ELogVerbosity_Fatal

text \<open>The \<^verbatim>\<open>FColor\<close> constants LoggerLibrary.cpp names.\<close>

datatype FColor = Purple | Blue | White | Cyan | Yellow | Red | Magenta

record FScreenMessage =
  Key :: int
  TimeToDisplay :: real
  DisplayColor :: FColor
  DebugMessage :: FString

text \<open>
  The process state the library reads and writes: its static member
  \<^verbatim>\<open>DisplayLogLevel\<close>, the host's global \<^verbatim>\<open>GEngine\<close> (a pointer that may be null; when
  it is not, the messages posted on the overlay so far) and the lines written to the log
  category \<^verbatim>\<open>LogLoggerLibrary\<close> so far.
\<close>

record World =
  DisplayLogLevel :: ELoggerLevel
  GEngine :: "FScreenMessage list option"
  LogOutput :: "(ELogVerbosity \<times> FString) list"

text \<open>\<^verbatim>\<open>inline static ELoggerLevel DisplayLogLevel = ELoggerLevel::Display;\<close>\<close>

definition InitialWorld :: "FScreenMessage list option \<Rightarrow> World" where
  "InitialWorld engine = \<lparr>DisplayLogLevel = Display, GEngine = engine, LogOutput = []\<rparr>"

text \<open>
  Modelled from the spec: the macro \<^verbatim>\<open>UE_LOG\<close> is the engine's, not this repository's.
  The spec's log sink "accepts (severity, formatted text)"; the model records the pair as
  the last line of the sink.
\<close>

definition UE_LOG :: "ELogVerbosity \<Rightarrow> FString \<Rightarrow> World \<Rightarrow> World" where
  "UE_LOG verbosity text w = w\<lparr>LogOutput := LogOutput w @ [(verbosity, text)]\<rparr>"

text \<open>
  Modelled from the spec: \<^verbatim>\<open>UEngine::AddOnScreenDebugMessage\<close> is the engine's, not
  this repository's. The spec's overlay "accepts (display duration, color, text) and renders transient
  text"; the model records the call, with its key, as the last message posted.
\<close>

definition AddOnScreenDebugMessage ::
  "int \<Rightarrow> real \<Rightarrow> FColor \<Rightarrow> FString \<Rightarrow> FScreenMessage list \<Rightarrow> FScreenMessage list" where
  "AddOnScreenDebugMessage key time color text msgs =
     msgs @ [\<lparr>Key = key, TimeToDisplay = time, DisplayColor = color, DebugMessage = text\<rparr>]"

text \<open>The messages on the overlay: none when there is no engine.\<close>

definition OnScreen :: "World \<Rightarrow> FScreenMessage list" where
  "OnScreen w = (case GEngine w of None \<Rightarrow> [] | Some msgs \<Rightarrow> msgs)"

section \<open>LoggerLibrary.cpp\<close>

text \<open>\<^verbatim>\<open>static const TMap<ELoggerLevel, FColor> LevelColorMap\<close>, in the order it is written.\<close>

definition LevelColorMap :: "(ELoggerLevel \<times> FColor) list" where
  "LevelColorMap =
     [(VeryVerbose, Purple), (Verbose, Blue), (Log, White), (Display, Cyan),
      (Warning, Yellow), (Error, Red), (Fatal, Magenta)]"

definition GetColorForLevel :: "ELoggerLevel \<Rightarrow> FColor" where
  "GetColorForLevel Level =
     (case map_of LevelColorMap Level of Some FoundColor \<Rightarrow> FoundColor | None \<Rightarrow> White)"

definition SetDisplayLogLevel :: "ELoggerLevel \<Rightarrow> World \<Rightarrow> World" where
  "SetDisplayLogLevel NewDisplayLevel w = w\<lparr>DisplayLogLevel := NewDisplayLevel\<rparr>"

text \<open>Lines 33 to 48 of LogMessage: the context name of the caller.\<close>

definition ContextName :: "UObject option \<Rightarrow> FString" where
  "ContextName Caller =
     (case Cast_UActorComponent Caller of
        Some Component \<Rightarrow>
          (case GetOwner Component of
             Some Owner \<Rightarrow> ActorGetName Owner @ ''.'' @ GetName Component
           | None \<Rightarrow> GetName Component)
      | None \<Rightarrow>
          (case Caller of Some obj \<Rightarrow> GetName obj | None \<Rightarrow> ''UnknownContext''))"

text \<open>
  Line 50: \<^verbatim>\<open>FString::Printf(TEXT("[%s]\t%s: %s"), ...)\<close>. The first argument is the text
  the host's \<^verbatim>\<open>UEnum::GetValueAsString\<close> gives for the level; the character after the
  closing bracket is a tab.
\<close>

definition LogString :: "FString \<Rightarrow> FString \<Rightarrow> FString \<Rightarrow> FString" where
  "LogString LevelText Context Message =
     ''['' @ LevelText @ '']'' @ [CHR 0x09] @ Context @ '': '' @ Message"

text \<open>
  LogMessage. \<open>nm\<close> is the host's \<^verbatim>\<open>UEnum::GetValueAsString\<close> on \<^verbatim>\<open>ELoggerLevel\<close>, which
  is the engine's and is taken as a parameter. The switch is the chain of tests, with
  its default branch last; the overlay is written only when the comparison holds and
  \<^verbatim>\<open>GEngine\<close> is not null.
\<close>

definition LogMessage ::
  "(ELoggerLevel \<Rightarrow> FString) \<Rightarrow> UObject option \<Rightarrow> FString \<Rightarrow> ELoggerLevel \<Rightarrow> World \<Rightarrow> World" where
  "LogMessage nm Caller Message Level w =
     (let Line = LogString (nm Level) (ContextName Caller) Message;
          w1 = (if Level = VeryVerbose then UE_LOG ELogVerbosity_VeryVerbose Line w
                else if Level = Verbose then UE_LOG ELogVerbosity_Verbose Line w
                else if Level = Log then UE_LOG ELogVerbosity_Log Line w
                else if Level = Display then UE_LOG ELogVerbosity_Display Line w
                else if Level = Warning then UE_LOG ELogVerbosity_Warning Line w
                else if Level = Error then UE_LOG ELogVerbosity_Error Line w
                else if Level = Fatal then UE_LOG ELogVerbosity_Fatal Line w
                else UE_LOG ELogVerbosity_Log Line w)
      in if DisplayLogLevel w1 \<le> Level
         then (case GEngine w1 of
                 Some msgs \<Rightarrow>
                   w1\<lparr>GEngine :=
                        Some (AddOnScreenDebugMessage (- 1) 5 (GetColorForLevel Level) Line msgs)\<rparr>
               | None \<Rightarrow> w1)
         else w1)"

text \<open>
  Modelled from the spec: \<^verbatim>\<open>FString::FromInt\<close> is the engine's, not this repository's.
  The spec has a number appended as "locale-independent decimal text": the digits of the value in
  base ten, most significant first, after a minus sign when the value is negative.
\<close>

definition DigitChar :: "nat \<Rightarrow> char" where
  "DigitChar d = char_of (48 + d)"

function Decimal :: "nat \<Rightarrow> FString" where
  "Decimal n = (if n < 10 then [DigitChar n] else Decimal (n div 10) @ [DigitChar (n mod 10)])"
  by pat_completeness auto
termination
  by (relation "measure (\<lambda>n. n)") auto

declare Decimal.simps [simp del]

definition FromInt :: "int32 \<Rightarrow> FString" where
  "FromInt Value =
     (if sint Value < 0 then ''-'' @ Decimal (nat (- sint Value)) else Decimal (nat (sint Value)))"





text \<open>The typed variants of LoggerLibrary.cpp, lines 90 to 113.\<close>

definition LogBool ::
  "(ELoggerLevel \<Rightarrow> FString) \<Rightarrow> UObject option \<Rightarrow> FString \<Rightarrow> bool \<Rightarrow> ELoggerLevel
     \<Rightarrow> World \<Rightarrow> World" where
  "LogBool nm Caller Message Value Level w =
     (let FinalMessage = Message @ '': '' @ (if Value then ''true'' else ''false'')
      in LogMessage nm Caller FinalMessage Level w)"

definition LogInt ::
  "(ELoggerLevel \<Rightarrow> FString) \<Rightarrow> UObject option \<Rightarrow> FString \<Rightarrow> int32 \<Rightarrow> ELoggerLevel
     \<Rightarrow> World \<Rightarrow> World" where
  "LogInt nm Caller Message Value Level w =
     (let FinalMessage = Message @ '': '' @ FromInt Value
      in LogMessage nm Caller FinalMessage Level w)"

text \<open>
  LogFloat. \<^verbatim>\<open>FString::SanitizeFloat\<close> is the engine's and is taken as the parameter
  \<open>sf\<close>, on a value of any type \<open>'d\<close>. The \<open>double\<close> and the \<open>SanitizeFloat\<close> modelled
  from the spec further down are one such type and conversion.
\<close>

definition LogFloat ::
  "(ELoggerLevel \<Rightarrow> FString) \<Rightarrow> ('d \<Rightarrow> FString) \<Rightarrow> UObject option \<Rightarrow> FString \<Rightarrow> 'd
     \<Rightarrow> ELoggerLevel \<Rightarrow> World \<Rightarrow> World" where
  "LogFloat nm sf Caller Message Value Level w =
     (let FinalMessage = Message @ '': '' @ sf Value
      in LogMessage nm Caller FinalMessage Level w)"

definition LogObject ::
  "(ELoggerLevel \<Rightarrow> FString) \<Rightarrow> UObject option \<Rightarrow> FString \<Rightarrow> UObject option
     \<Rightarrow> ELoggerLevel \<Rightarrow> World \<Rightarrow> World" where
  "LogObject nm Caller Message Value Level w =
     (let ObjectName = (case Value of Some obj \<Rightarrow> GetName obj | None \<Rightarrow> ''NULL'');
          FinalMessage = Message @ '': '' @ ObjectName
      in LogMessage nm Caller FinalMessage Level w)"

text \<open>
  The two gates, lines 115 to 144. The reference parameter \<^verbatim>\<open>OutExecs\<close> is the second
  component of the result.
\<close>

definition LogOnValidity ::
  "(ELoggerLevel \<Rightarrow> FString) \<Rightarrow> UObject option \<Rightarrow> UObject option \<Rightarrow> ELogValidityCondition
     \<Rightarrow> FString \<Rightarrow> ELoggerLevel \<Rightarrow> World \<Rightarrow> World \<times> EValidityOutcome" where
  "LogOnValidity nm Caller InObject Condition Message Level w =
     (let bShouldLog =
            (if Condition = LogWhenInvalid then \<not> IsValid InObject
             else if Condition = LogWhenValid then IsValid InObject
             else False);
          w1 = (if bShouldLog then LogMessage nm Caller Message Level w else w)
      in (w1, if IsValid InObject then EValidityOutcome_IsValid
              else EValidityOutcome_IsNotValid))"

definition LogOnCondition ::
  "(ELoggerLevel \<Rightarrow> FString) \<Rightarrow> UObject option \<Rightarrow> bool \<Rightarrow> ELogBooleanCondition
     \<Rightarrow> FString \<Rightarrow> ELoggerLevel \<Rightarrow> World \<Rightarrow> World \<times> EConditionOutcome" where
  "LogOnCondition nm Caller Condition LogCondition Message Level w =
     (let w1 = (if (LogCondition = LogWhenTrue \<and> Condition)
                   \<or> (LogCondition = LogWhenFalse \<and> \<not> Condition)
                then LogMessage nm Caller Message Level w else w)
      in (w1, if Condition then IsTrue else IsFalse))"

section \<open>Parts of the library that are not in the source\<close>

text \<open>
  Modelled from the spec: \<^verbatim>\<open>UEnum::GetValueAsString\<close> is the engine's, not this
  repository's. The spec composes the line from "<SeverityName>", the bare name of the severity. The spec
  names no text for a byte that is none of the seven enumerators: \<open>unnamed\<close> is what the
  host gives there.
\<close>

definition GetValueAsString :: "FString \<Rightarrow> ELoggerLevel \<Rightarrow> FString" where
  "GetValueAsString unnamed Level =
     (if Level = VeryVerbose then ''VeryVerbose''
      else if Level = Verbose then ''Verbose''
      else if Level = Log then ''Log''
      else if Level = Display then ''Display''
      else if Level = Warning then ''Warning''
      else if Level = Error then ''Error''
      else if Level = Fatal then ''Fatal''
      else unnamed)"






text \<open>
  Modelled from the spec: LoggerLibrary.h declares LogVector, and LoggerLibrary.cpp does
  not define it. The spec: each typed variant "appends a stringified value to message
  ("<message>: <stringified value>") and delegates to LogMessage unchanged otherwise";
  a vector uses its "natural component-wise text form". The host's \<^verbatim>\<open>FVector\<close> is any
  type \<open>'v\<close>, and \<open>ts\<close> is the host's conversion of it to text.
\<close>

definition LogVector ::
  "(ELoggerLevel \<Rightarrow> FString) \<Rightarrow> ('v \<Rightarrow> FString) \<Rightarrow> UObject option \<Rightarrow> FString
     \<Rightarrow> 'v \<Rightarrow> ELoggerLevel \<Rightarrow> World \<Rightarrow> World" where
  "LogVector nm ts Caller Message Value Level w =
     LogMessage nm Caller (Message @ '': '' @ ts Value) Level w"

text \<open>
  Modelled from the spec: LoggerLibrary.h declares LogRotator, and LoggerLibrary.cpp does
  not define it. The spec's words are those quoted for LogVector. The host's
  \<^verbatim>\<open>FRotator\<close> is any type \<open>'r\<close>, and \<open>ts\<close> is the host's conversion of it to text.
\<close>

definition LogRotator ::
  "(ELoggerLevel \<Rightarrow> FString) \<Rightarrow> ('r \<Rightarrow> FString) \<Rightarrow> UObject option \<Rightarrow> FString
     \<Rightarrow> 'r \<Rightarrow> ELoggerLevel \<Rightarrow> World \<Rightarrow> World" where
  "LogRotator nm ts Caller Message Value Level w =
     LogMessage nm Caller (Message @ '': '' @ ts Value) Level w"

section \<open>Sequences of calls\<close>

text \<open>
  A caller of the library makes one call after another on the same process state. A call
  is one of the operations LoggerLibrary.cpp defines, with its arguments.
\<close>

datatype 'd Call =
    Call_SetDisplayLogLevel ELoggerLevel
  | Call_LogMessage "UObject option" FString ELoggerLevel
  | Call_LogBool "UObject option" FString bool ELoggerLevel
  | Call_LogInt "UObject option" FString int32 ELoggerLevel
  | Call_LogFloat "UObject option" FString 'd ELoggerLevel
  | Call_LogObject "UObject option" FString "UObject option" ELoggerLevel
  | Call_LogOnValidity "UObject option" "UObject option" ELogValidityCondition FString
      ELoggerLevel
  | Call_LogOnCondition "UObject option" bool ELogBooleanCondition FString ELoggerLevel

fun Invoke ::
  "(ELoggerLevel \<Rightarrow> FString) \<Rightarrow> ('d \<Rightarrow> FString) \<Rightarrow> 'd Call \<Rightarrow> World \<Rightarrow> World" where
  "Invoke nm sf (Call_SetDisplayLogLevel l) w = SetDisplayLogLevel l w"
| "Invoke nm sf (Call_LogMessage c m l) w = LogMessage nm c m l w"
| "Invoke nm sf (Call_LogBool c m v l) w = LogBool nm c m v l w"
| "Invoke nm sf (Call_LogInt c m v l) w = LogInt nm c m v l w"
| "Invoke nm sf (Call_LogFloat c m v l) w = LogFloat nm sf c m v l w"
| "Invoke nm sf (Call_LogObject c m v l) w = LogObject nm c m v l w"
| "Invoke nm sf (Call_LogOnValidity c obj cond m l) w = fst (LogOnValidity nm c obj cond m l w)"
| "Invoke nm sf (Call_LogOnCondition c b cond m l) w = fst (LogOnCondition nm c b cond m l w)"

fun IsSetter :: "'d Call \<Rightarrow> bool" where
  "IsSetter (Call_SetDisplayLogLevel l) = True"
| "IsSetter c = False"

fun Run ::
  "(ELoggerLevel \<Rightarrow> FString) \<Rightarrow> ('d \<Rightarrow> FString) \<Rightarrow> 'd Call list \<Rightarrow> World \<Rightarrow> World" where
  "Run nm sf [] w = w"
| "Run nm sf (c # cs) w = Run nm sf cs (Invoke nm sf c w)"

section \<open>Properties\<close>

lemmas ELoggerLevel_defs =
  VeryVerbose_def Verbose_def Log_def Display_def Warning_def Error_def Fatal_def

subsection \<open>What LogMessage does to each part of the state\<close>

lemma DisplayLogLevel_LogMessage [simp]:
  "DisplayLogLevel (LogMessage nm Caller Message Level w) = DisplayLogLevel w"
  by (simp add: LogMessage_def UE_LOG_def Let_def split: option.split)

lemma LogOutput_LogMessage_text:
  "map snd (LogOutput (LogMessage nm Caller Message Level w)) =
     map snd (LogOutput w) @ [LogString (nm Level) (ContextName Caller) Message]"
  by (simp add: LogMessage_def UE_LOG_def Let_def split: option.split)

lemma length_LogOutput_LogMessage:
  "length (LogOutput (LogMessage nm Caller Message Level w)) = Suc (length (LogOutput w))"
  by (simp add: LogMessage_def UE_LOG_def Let_def split: option.split)

lemma GEngine_LogMessage:
  "GEngine (LogMessage nm Caller Message Level w) =
     (case GEngine w of
        None \<Rightarrow> None
      | Some msgs \<Rightarrow>
          Some (if DisplayLogLevel w \<le> Level
                then msgs @ [\<lparr>Key = - 1, TimeToDisplay = 5,
                              DisplayColor = GetColorForLevel Level,
                              DebugMessage = LogString (nm Level) (ContextName Caller) Message\<rparr>]
                else msgs))"
  by (simp add: LogMessage_def UE_LOG_def AddOnScreenDebugMessage_def Let_def
      split: option.split)

lemma OnScreen_LogMessage:
  "OnScreen (LogMessage nm Caller Message Level w) =
     (if GEngine w \<noteq> None \<and> DisplayLogLevel w \<le> Level
      then OnScreen w @ [\<lparr>Key = - 1, TimeToDisplay = 5,
                          DisplayColor = GetColorForLevel Level,
                          DebugMessage = LogString (nm Level) (ContextName Caller) Message\<rparr>]
      else OnScreen w)"
  by (simp add: OnScreen_def GEngine_LogMessage split: option.split)

subsection \<open>The threshold and the engine along a sequence of calls\<close>

lemma DisplayLogLevel_Invoke:
  "\<not> IsSetter c \<Longrightarrow> DisplayLogLevel (Invoke nm sf c w) = DisplayLogLevel w"
  by (cases c)
     (simp_all add: LogBool_def LogInt_def LogFloat_def LogObject_def LogOnValidity_def
        LogOnCondition_def Let_def)

lemma DisplayLogLevel_Run:
  "list_all (\<lambda>c. \<not> IsSetter c) cs \<Longrightarrow> DisplayLogLevel (Run nm sf cs w) = DisplayLogLevel w"
  by (induction cs arbitrary: w) (simp_all add: DisplayLogLevel_Invoke)

lemma GEngine_None_LogMessage:
  "GEngine (LogMessage nm c m l w) = None \<longleftrightarrow> GEngine w = None"
  by (simp add: GEngine_LogMessage split: option.split)

lemma GEngine_None_Invoke:
  "GEngine (Invoke nm sf c w) = None \<longleftrightarrow> GEngine w = None"
  by (cases c)
     (simp_all add: LogBool_def LogInt_def LogFloat_def LogObject_def LogOnValidity_def
        LogOnCondition_def SetDisplayLogLevel_def Let_def GEngine_None_LogMessage)

lemma GEngine_None_Run:
  "GEngine (Run nm sf cs w) = None \<longleftrightarrow> GEngine w = None"
  by (induction cs arbitrary: w) (simp_all add: GEngine_None_Invoke)

subsection \<open>Decimal text\<close>






































section \<open>The claims\<close>

text \<open>
  Claim C1, as the code has it. LogMessage always writes the formatted line to the log
  sink, at the verbosity named like the level, whatever the display threshold is. The
  line is also posted on the overlay exactly when the engine is present (\<^verbatim>\<open>GEngine\<close> is
  not null) and the level is at least the display threshold as bytes; with no engine
  nothing is posted.
\<close>

theorem LogMessage_sink_and_overlay:
  "LogOutput (LogMessage nm Caller Message VeryVerbose w) =
     LogOutput w
       @ [(ELogVerbosity_VeryVerbose, LogString (nm VeryVerbose) (ContextName Caller) Message)]
   \<and> LogOutput (LogMessage nm Caller Message Verbose w) =
     LogOutput w @ [(ELogVerbosity_Verbose, LogString (nm Verbose) (ContextName Caller) Message)]
   \<and> LogOutput (LogMessage nm Caller Message Log w) =
     LogOutput w @ [(ELogVerbosity_Log, LogString (nm Log) (ContextName Caller) Message)]
   \<and> LogOutput (LogMessage nm Caller Message Display w) =
     LogOutput w @ [(ELogVerbosity_Display, LogString (nm Display) (ContextName Caller) Message)]
   \<and> LogOutput (LogMessage nm Caller Message Warning w) =
     LogOutput w @ [(ELogVerbosity_Warning, LogString (nm Warning) (ContextName Caller) Message)]
   \<and> LogOutput (LogMessage nm Caller Message Error w) =
     LogOutput w @ [(ELogVerbosity_Error, LogString (nm Error) (ContextName Caller) Message)]
   \<and> LogOutput (LogMessage nm Caller Message Fatal w) =
     LogOutput w @ [(ELogVerbosity_Fatal, LogString (nm Fatal) (ContextName Caller) Message)]
   \<and> (OnScreen (LogMessage nm Caller Message Level w) \<noteq> OnScreen w
        \<longleftrightarrow> GEngine w \<noteq> None \<and> DisplayLogLevel w \<le> Level)
   \<and> OnScreen (LogMessage nm Caller Message Level w) =
       (if GEngine w \<noteq> None \<and> DisplayLogLevel w \<le> Level
        then OnScreen w @ [\<lparr>Key = - 1, TimeToDisplay = 5,
                            DisplayColor = GetColorForLevel Level,
                            DebugMessage = LogString (nm Level) (ContextName Caller) Message\<rparr>]
        else OnScreen w)"
  apply (intro conjI)
  apply (simp_all add: OnScreen_LogMessage)
  apply (simp_all add: LogMessage_def UE_LOG_def Let_def ELoggerLevel_defs split: option.split)
  done

text \<open>
  Claim C1 as the spec states it fails where there is no engine: a Warning logged under
  the initial threshold Display is at least the threshold and is not posted.
\<close>

theorem LogMessage_overlay_needs_engine:
  "\<not> (OnScreen (LogMessage (\<lambda>l. []) None ''m'' Warning (InitialWorld None))
          \<noteq> OnScreen (InitialWorld None)
        \<longleftrightarrow> DisplayLogLevel (InitialWorld None) \<le> Warning)"
  by (simp add: OnScreen_LogMessage InitialWorld_def ELoggerLevel_defs)

text \<open>
  Claim C2. The text LogMessage writes is an opening bracket, the host's name of the
  level, a closing bracket, a tab, the context name, a colon and a space, and the message.
  Where the host's name is the bare name of the severity, the line for Warning, context
  Pawn1 and message "Low health" is "[Warning]", a tab, "Pawn1: Low health".
\<close>

theorem LogMessage_line_shape:
  "map snd (LogOutput (LogMessage nm Caller Message Level w)) =
     map snd (LogOutput w)
       @ [''['' @ nm Level @ '']'' @ [CHR 0x09] @ ContextName Caller @ '': '' @ Message]
   \<and> GetValueAsString u VeryVerbose = ''VeryVerbose''
   \<and> GetValueAsString u Verbose = ''Verbose''
   \<and> GetValueAsString u Log = ''Log''
   \<and> GetValueAsString u Display = ''Display''
   \<and> GetValueAsString u Warning = ''Warning''
   \<and> GetValueAsString u Error = ''Error''
   \<and> GetValueAsString u Fatal = ''Fatal''
   \<and> map snd (LogOutput (LogMessage (GetValueAsString u) (Some (PlainObject ''Pawn1'' l))
        ''Low health'' Warning w)) =
      map snd (LogOutput w) @ [''[Warning]'' @ [CHR 0x09] @ ''Pawn1: Low health'']"
  by (simp add: LogOutput_LogMessage_text LogString_def GetValueAsString_def ContextName_def
      ELoggerLevel_defs)

text \<open>
  Claim C3. The context name is defined for every caller reference: a component with an
  owner gives the owner's name, a dot and the component's name; a component with no owner
  and any other object give their own name; a null caller gives "UnknownContext". The
  four cases are all the cases of a caller reference.
\<close>

theorem ContextName_cases:
  "ContextName (Some (UActorComponent n l (Some (AActor p)))) = p @ ''.'' @ n
   \<and> ContextName (Some (UActorComponent n l None)) = n
   \<and> ContextName (Some (PlainObject n l)) = n
   \<and> ContextName None = ''UnknownContext''
   \<and> ContextName (Some (UActorComponent ''HealthComponent'' l (Some (AActor ''Player''))))
       = ''Player.HealthComponent''
   \<and> ContextName (Some (PlainObject ''Pawn1'' l)) = ''Pawn1''"
  by (simp add: ContextName_def)

text \<open>
  Claim C4. LogOnValidity logs through LogMessage exactly when the condition is
  LogWhenInvalid and the object is not a live instance, or the condition is LogWhenValid
  and the object is a live instance; otherwise the state is untouched. A line reaches the
  log sink in exactly those cases. The outcome is IsValid for a live object and
  IsNotValid otherwise, logged or not.
\<close>

theorem LogOnValidity_gate:
  "fst (LogOnValidity nm Caller InObject Condition Message Level w) =
     (if (Condition = LogWhenInvalid \<and> \<not> IsValid InObject)
         \<or> (Condition = LogWhenValid \<and> IsValid InObject)
      then LogMessage nm Caller Message Level w else w)
   \<and> (LogOutput (fst (LogOnValidity nm Caller InObject Condition Message Level w))
         \<noteq> LogOutput w
       \<longleftrightarrow> (Condition = LogWhenInvalid \<and> \<not> IsValid InObject)
           \<or> (Condition = LogWhenValid \<and> IsValid InObject))
   \<and> snd (LogOnValidity nm Caller InObject Condition Message Level w) =
       (if IsValid InObject then EValidityOutcome_IsValid else EValidityOutcome_IsNotValid)"
proof (intro conjI)
  show "fst (LogOnValidity nm Caller InObject Condition Message Level w) =
     (if (Condition = LogWhenInvalid \<and> \<not> IsValid InObject)
         \<or> (Condition = LogWhenValid \<and> IsValid InObject)
      then LogMessage nm Caller Message Level w else w)"
    by (simp add: LogOnValidity_def Let_def LogWhenValid_def LogWhenInvalid_def)
  then show "LogOutput (fst (LogOnValidity nm Caller InObject Condition Message Level w))
         \<noteq> LogOutput w
       \<longleftrightarrow> (Condition = LogWhenInvalid \<and> \<not> IsValid InObject)
           \<or> (Condition = LogWhenValid \<and> IsValid InObject)"
    using length_LogOutput_LogMessage [of nm Caller Message Level w]
    by (auto simp del: fst_conv)
  show "snd (LogOnValidity nm Caller InObject Condition Message Level w) =
       (if IsValid InObject then EValidityOutcome_IsValid else EValidityOutcome_IsNotValid)"
    by (simp add: LogOnValidity_def Let_def)
qed

text \<open>
  Claim C5. LogOnCondition logs through LogMessage exactly when the log condition is
  LogWhenTrue and the condition is true, or the log condition is LogWhenFalse and the
  condition is false; a line reaches the log sink in exactly those cases. The outcome is
  IsTrue for a true condition and IsFalse for a false one.
\<close>

theorem LogOnCondition_gate:
  "fst (LogOnCondition nm Caller Condition LogCondition Message Level w) =
     (if (LogCondition = LogWhenTrue \<and> Condition)
         \<or> (LogCondition = LogWhenFalse \<and> \<not> Condition)
      then LogMessage nm Caller Message Level w else w)
   \<and> (LogOutput (fst (LogOnCondition nm Caller Condition LogCondition Message Level w))
         \<noteq> LogOutput w
       \<longleftrightarrow> (LogCondition = LogWhenTrue \<and> Condition)
           \<or> (LogCondition = LogWhenFalse \<and> \<not> Condition))
   \<and> snd (LogOnCondition nm Caller Condition LogCondition Message Level w) =
       (if Condition then IsTrue else IsFalse)"
proof (intro conjI)
  show "fst (LogOnCondition nm Caller Condition LogCondition Message Level w) =
     (if (LogCondition = LogWhenTrue \<and> Condition)
         \<or> (LogCondition = LogWhenFalse \<and> \<not> Condition)
      then LogMessage nm Caller Message Level w else w)"
    by (simp add: LogOnCondition_def Let_def)
  then show "LogOutput (fst (LogOnCondition nm Caller Condition LogCondition Message Level w))
         \<noteq> LogOutput w
       \<longleftrightarrow> (LogCondition = LogWhenTrue \<and> Condition)
           \<or> (LogCondition = LogWhenFalse \<and> \<not> Condition)"
    using length_LogOutput_LogMessage [of nm Caller Message Level w]
    by (auto simp del: fst_conv)
  show "snd (LogOnCondition nm Caller Condition LogCondition Message Level w) =
       (if Condition then IsTrue else IsFalse)"
    by (simp add: LogOnCondition_def Let_def)
qed

text \<open>
  Claim C6. The display threshold starts as Display; SetDisplayLogLevel sets it to its
  argument; LogMessage, the typed variants the source defines and both gates leave it as
  it was. So after SetDisplayLogLevel to a level and any sequence of calls none of which
  is the setter, the threshold is still that level, and the next LogMessage compares its
  level with it.
\<close>

theorem DisplayLogLevel_frame:
  "DisplayLogLevel (InitialWorld engine) = Display
   \<and> DisplayLogLevel (SetDisplayLogLevel NewLevel w) = NewLevel
   \<and> DisplayLogLevel (LogMessage nm Caller Message Level w) = DisplayLogLevel w
   \<and> DisplayLogLevel (LogBool nm Caller Message b Level w) = DisplayLogLevel w
   \<and> DisplayLogLevel (LogInt nm Caller Message i Level w) = DisplayLogLevel w
   \<and> DisplayLogLevel (LogFloat nm sf Caller Message d Level w) = DisplayLogLevel w
   \<and> DisplayLogLevel (LogObject nm Caller Message obj Level w) = DisplayLogLevel w
   \<and> DisplayLogLevel (fst (LogOnValidity nm Caller obj vc Message Level w)) = DisplayLogLevel w
   \<and> DisplayLogLevel (fst (LogOnCondition nm Caller b bc Message Level w)) = DisplayLogLevel w
   \<and> (list_all (\<lambda>c. \<not> IsSetter c) cs \<longrightarrow>
        DisplayLogLevel (Run nm sf cs (SetDisplayLogLevel NewLevel w)) = NewLevel
        \<and> (OnScreen (LogMessage nm Caller Message Level
                       (Run nm sf cs (SetDisplayLogLevel NewLevel w)))
             \<noteq> OnScreen (Run nm sf cs (SetDisplayLogLevel NewLevel w))
           \<longleftrightarrow> GEngine w \<noteq> None \<and> NewLevel \<le> Level))"
  apply (intro conjI impI)
  apply (simp_all add: InitialWorld_def SetDisplayLogLevel_def LogBool_def LogInt_def
      LogFloat_def LogObject_def LogOnValidity_def LogOnCondition_def Let_def)
  apply (simp add: DisplayLogLevel_Run)
  apply (simp add: OnScreen_LogMessage GEngine_None_Run DisplayLogLevel_Run)
  done

theorem DisplayLogLevel_frame_witness:
  "list_all (\<lambda>c. \<not> IsSetter c)
     [Call_LogMessage None ''a'' Fatal, Call_LogFloat None ''b'' (0::nat) Log]
   \<and> DisplayLogLevel
       (Run (\<lambda>l. []) (\<lambda>d. [])
          [Call_LogMessage None ''a'' Fatal, Call_LogFloat None ''b'' (0::nat) Log]
          (SetDisplayLogLevel Error (InitialWorld (Some [])))) = Error
   \<and> OnScreen
       (LogMessage (\<lambda>l. []) None ''c'' Warning
          (Run (\<lambda>l. []) (\<lambda>d. [])
             [Call_LogMessage None ''a'' Fatal, Call_LogFloat None ''b'' (0::nat) Log]
             (SetDisplayLogLevel Error (InitialWorld (Some []))))) =
     OnScreen
       (Run (\<lambda>l. []) (\<lambda>d. [])
          [Call_LogMessage None ''a'' Fatal, Call_LogFloat None ''b'' (0::nat) Log]
          (SetDisplayLogLevel Error (InitialWorld (Some []))))"
  using DisplayLogLevel_frame
    [where cs = "[Call_LogMessage None ''a'' Fatal, Call_LogFloat None ''b'' (0::nat) Log]"
       and NewLevel = Error and Level = Warning and nm = "\<lambda>l. []" and sf = "\<lambda>d. []"
       and Caller = None and Message = "''c''" and w = "InitialWorld (Some [])"]
  by (simp add: ELoggerLevel_defs InitialWorld_def)


text \<open>
  Claim C8. LogVector and LogRotator, as the spec describes them, are LogMessage on the
  message followed by a colon, a space and the host's text of the value, with the caller,
  the level and the state passed on as they are: the line they write ends in the message,
  a colon, a space and that text, and the display threshold is left as it was.
\<close>

theorem LogVector_LogRotator_delegate:
  "LogVector nm tv Caller Message v Level w =
     LogMessage nm Caller (Message @ '': '' @ tv v) Level w
   \<and> LogRotator nm tr Caller Message r Level w =
     LogMessage nm Caller (Message @ '': '' @ tr r) Level w
   \<and> map snd (LogOutput (LogVector nm tv Caller Message v Level w)) =
     map snd (LogOutput w)
       @ [''['' @ nm Level @ '']'' @ [CHR 0x09] @ ContextName Caller @ '': ''
            @ Message @ '': '' @ tv v]
   \<and> map snd (LogOutput (LogRotator nm tr Caller Message r Level w)) =
     map snd (LogOutput w)
       @ [''['' @ nm Level @ '']'' @ [CHR 0x09] @ ContextName Caller @ '': ''
            @ Message @ '': '' @ tr r]
   \<and> DisplayLogLevel (LogVector nm tv Caller Message v Level w) = DisplayLogLevel w
   \<and> DisplayLogLevel (LogRotator nm tr Caller Message r Level w) = DisplayLogLevel w"
  by (simp add: LogVector_def LogRotator_def LogOutput_LogMessage_text LogString_def)

text \<open>
  Claim C9. GetColorForLevel gives each of the seven levels the one colour the table has
  for it (the table has no level twice), and White for a level the table does not have.
  A message LogMessage posts on the overlay has that colour, the key -1 and the duration 5.
\<close>

theorem GetColorForLevel_total:
  "GetColorForLevel VeryVerbose = Purple
   \<and> GetColorForLevel Verbose = Blue
   \<and> GetColorForLevel Log = White
   \<and> GetColorForLevel Display = Cyan
   \<and> GetColorForLevel Warning = Yellow
   \<and> GetColorForLevel Error = Red
   \<and> GetColorForLevel Fatal = Magenta
   \<and> distinct (map fst LevelColorMap)
   \<and> (Level \<notin> fst ` set LevelColorMap \<longrightarrow> GetColorForLevel Level = White)
   \<and> OnScreen (LogMessage nm Caller Message Level w) =
       (if GEngine w \<noteq> None \<and> DisplayLogLevel w \<le> Level
        then OnScreen w @ [\<lparr>Key = - 1, TimeToDisplay = 5,
                            DisplayColor = GetColorForLevel Level,
                            DebugMessage = LogString (nm Level) (ContextName Caller) Message\<rparr>]
        else OnScreen w)"
proof -
  have "Level \<notin> fst ` set LevelColorMap \<Longrightarrow> map_of LevelColorMap Level = None"
    by (simp add: map_of_eq_None_iff)
  then have "Level \<notin> fst ` set LevelColorMap \<longrightarrow> GetColorForLevel Level = White"
    by (simp add: GetColorForLevel_def)
  moreover have "GetColorForLevel VeryVerbose = Purple
   \<and> GetColorForLevel Verbose = Blue
   \<and> GetColorForLevel Log = White
   \<and> GetColorForLevel Display = Cyan
   \<and> GetColorForLevel Warning = Yellow
   \<and> GetColorForLevel Error = Red
   \<and> GetColorForLevel Fatal = Magenta
   \<and> distinct (map fst LevelColorMap)"
    by (simp add: GetColorForLevel_def LevelColorMap_def ELoggerLevel_defs)
  ultimately show ?thesis
    using OnScreen_LogMessage [of nm Caller Message Level w] by blast
qed

theorem GetColorForLevel_total_witness:
  "(200 :: ELoggerLevel) \<notin> fst ` set LevelColorMap \<and> GetColorForLevel 200 = White"
  using GetColorForLevel_total [of 200]
  by (simp add: LevelColorMap_def ELoggerLevel_defs)

text \<open>
  Claim C10. For a level byte that is none of the seven enumerators LogMessage still
  writes the line to the log sink, through the default branch, at the verbosity Log; the
  colour looked up is White; and the overlay is written under the same test as for any
  level: the engine is present and the byte is at least the display threshold.
\<close>

theorem LogMessage_undeclared_level:
  "Level \<notin> {VeryVerbose, Verbose, Log, Display, Warning, Error, Fatal} \<Longrightarrow>
     LogOutput (LogMessage nm Caller Message Level w) =
       LogOutput w @ [(ELogVerbosity_Log, LogString (nm Level) (ContextName Caller) Message)]
     \<and> GetColorForLevel Level = White
     \<and> OnScreen (LogMessage nm Caller Message Level w) =
       (if GEngine w \<noteq> None \<and> DisplayLogLevel w \<le> Level
        then OnScreen w @ [\<lparr>Key = - 1, TimeToDisplay = 5, DisplayColor = White,
                            DebugMessage = LogString (nm Level) (ContextName Caller) Message\<rparr>]
        else OnScreen w)"
proof -
  assume out: "Level \<notin> {VeryVerbose, Verbose, Log, Display, Warning, Error, Fatal}"
  then have col: "GetColorForLevel Level = White"
    by (auto simp: GetColorForLevel_def LevelColorMap_def)
  from out have "LogOutput (LogMessage nm Caller Message Level w) =
       LogOutput w @ [(ELogVerbosity_Log, LogString (nm Level) (ContextName Caller) Message)]"
    by (simp add: LogMessage_def UE_LOG_def Let_def split: option.split)
  with col show ?thesis
    by (simp add: OnScreen_LogMessage)
qed

theorem LogMessage_undeclared_level_witness:
  "(255 :: ELoggerLevel) \<notin> {VeryVerbose, Verbose, Log, Display, Warning, Error, Fatal}
   \<and> LogOutput (LogMessage (\<lambda>l. ''None'') None ''m'' 255 (InitialWorld (Some []))) =
       [(ELogVerbosity_Log, ''[None]'' @ [CHR 0x09] @ ''UnknownContext: m'')]
   \<and> OnScreen (LogMessage (\<lambda>l. ''None'') None ''m'' 255 (InitialWorld (Some []))) =
       [\<lparr>Key = - 1, TimeToDisplay = 5, DisplayColor = White,
         DebugMessage = ''[None]'' @ [CHR 0x09] @ ''UnknownContext: m''\<rparr>]"
proof -
  have h: "(255 :: ELoggerLevel) \<notin> {VeryVerbose, Verbose, Log, Display, Warning, Error, Fatal}"
    by (simp add: ELoggerLevel_defs)
  show ?thesis
    using h LogMessage_undeclared_level
      [OF h, of "\<lambda>l. ''None''" None "''m''" "InitialWorld (Some [])"]
    by (simp add: InitialWorld_def OnScreen_def LogString_def ContextName_def Display_def)
qed

end
